theory Spec2Isabelle
  imports Main
begin

section \<open>Data model\<close>

text \<open>
  The development embeds \<^verbatim>\<open>backend/app/websockets.py\<close> (the connection manager and the
  WebSocket endpoint) and the two store functions of \<^verbatim>\<open>backend/app/database.py\<close> that
  the endpoint calls.

  A WebSocket object is compared by identity (\<^verbatim>\<open>list.remove\<close>, \<^verbatim>\<open>connection != sender\<close>),
  so a channel is modelled by an identifier. A room id is a string.

  The handlers are coroutines on one event loop. Every method of the manager and every
  iteration of a handler's loop is modelled as running to its end before another handler
  runs; what other handlers do between two such steps is covered by stating the
  properties of a step for every state it may start in.
\<close>

type_synonym websocket = nat
type_synonym room_id = string

text \<open>
  Values produced by \<^verbatim>\<open>json.loads\<close> and consumed by \<^verbatim>\<open>send_json\<close>. A Python dict is
  an association list read with \<open>map_of\<close>. Numbers are integers; floating point payloads
  are only relayed by the program and are not modelled.
\<close>

datatype json =
    JNull
  | JBool bool
  | JInt int
  | JStr string
  | JArr "json list"
  | JObj "(string \<times> json) list"

text \<open>The exceptions that the endpoint distinguishes or that the modelled code can raise.\<close>

datatype exn =
    WebSocketDisconnect
  | JSONDecodeError
  | AttributeError
  | TypeError
  | DatabaseError
  | RuntimeError

text \<open>
  The ORM class \<^verbatim>\<open>Room\<close>. The attribute \<^verbatim>\<open>code\<close> holds whatever Python value was assigned
  to it (\<^verbatim>\<open>room.code = code\<close> does not check the column type). The primary key is the key
  of the map below; the two timestamps are not read by the modelled code and are left out.
\<close>

record room =
  code :: json
  language :: string

text \<open>
  The room store behind a SQLAlchemy session: the table, and whether a store operation
  issued now raises (connection loss, a value the driver refuses, ...).
\<close>

record database =
  rooms :: "room_id \<rightharpoonup> room"
  down :: bool

text \<open>
  The state that the handlers act on: the manager's dictionary, the store, and for every
  channel the messages \<^verbatim>\<open>send_json\<close> has delivered on it, the exception a send on it raises
  (if any), whether it was accepted, and the close code and reason it was closed with.
\<close>

record world =
  active_connections :: "room_id \<rightharpoonup> websocket list"
  store :: database
  sent :: "websocket \<Rightarrow> json list"
  fault :: "websocket \<Rightarrow> exn option"
  accepted :: "websocket \<Rightarrow> bool"
  closed :: "websocket \<rightharpoonup> nat \<times> string"

section \<open>database.py\<close>

definition get_room :: "database \<Rightarrow> room_id \<Rightarrow> exn + room option" where
  "get_room db rid = (if down db then Inl DatabaseError else Inr (rooms db rid))"

definition update_room_code :: "database \<Rightarrow> room_id \<Rightarrow> json \<Rightarrow> exn + bool \<times> database" where
  "update_room_code db rid c =
     (case get_room db rid of
        Inl e \<Rightarrow> Inl e
      | Inr None \<Rightarrow> Inr (False, db)
      | Inr (Some rm) \<Rightarrow> Inr (True, db\<lparr>rooms := (rooms db)(rid \<mapsto> rm\<lparr>code := c\<rparr>)\<rparr>))"

section \<open>websockets.py: ConnectionManager\<close>

definition send_json :: "world \<Rightarrow> websocket \<Rightarrow> json \<Rightarrow> exn + world" where
  "send_json w ws m =
     (case fault w ws of
        Some e \<Rightarrow> Inl e
      | None \<Rightarrow> Inr (w\<lparr>sent := (sent w)(ws := sent w ws @ [m])\<rparr>))"

definition connect :: "world \<Rightarrow> websocket \<Rightarrow> room_id \<Rightarrow> world" where
  "connect w ws rid =
     (let w1 = w\<lparr>accepted := (accepted w)(ws := True)\<rparr>;
          w2 = (if active_connections w1 rid = None
                then w1\<lparr>active_connections := (active_connections w1)(rid \<mapsto> [])\<rparr>
                else w1)
      in w2\<lparr>active_connections :=
              (active_connections w2)(rid \<mapsto> the (active_connections w2 rid) @ [ws])\<rparr>)"

definition disconnect :: "world \<Rightarrow> websocket \<Rightarrow> room_id \<Rightarrow> world" where
  "disconnect w ws rid =
     (case active_connections w rid of
        None \<Rightarrow> w
      | Some conns \<Rightarrow>
          if ws \<in> set conns then
            (let conns' = remove1 ws conns in
             if conns' = []
             then w\<lparr>active_connections := (active_connections w)(rid := None)\<rparr>
             else w\<lparr>active_connections := (active_connections w)(rid \<mapsto> conns')\<rparr>)
          else w)"

text \<open>
  The first loop of \<^verbatim>\<open>broadcast\<close>: the connections still to visit, the state, and the
  list \<^verbatim>\<open>disconnected\<close> collected so far.
\<close>

fun broadcast_loop ::
  "websocket list \<Rightarrow> json \<Rightarrow> websocket option \<Rightarrow> world \<Rightarrow> websocket list \<Rightarrow> world \<times> websocket list"
where
  "broadcast_loop [] m sender w disconnected = (w, disconnected)"
| "broadcast_loop (connection # rest) m sender w disconnected =
     (if Some connection \<noteq> sender then
        (case send_json w connection m of
           Inr w' \<Rightarrow> broadcast_loop rest m sender w' disconnected
         | Inl e \<Rightarrow> broadcast_loop rest m sender w (disconnected @ [connection]))
      else broadcast_loop rest m sender w disconnected)"

text \<open>The second loop of both broadcasts: \<^verbatim>\<open>for conn in disconnected: self.disconnect(conn, room_id)\<close>.\<close>

fun cleanup_loop :: "websocket list \<Rightarrow> room_id \<Rightarrow> world \<Rightarrow> world" where
  "cleanup_loop [] rid w = w"
| "cleanup_loop (conn # rest) rid w = cleanup_loop rest rid (disconnect w conn rid)"

definition broadcast :: "world \<Rightarrow> room_id \<Rightarrow> json \<Rightarrow> websocket option \<Rightarrow> world" where
  "broadcast w rid m sender =
     (case active_connections w rid of
        None \<Rightarrow> w
      | Some conns \<Rightarrow>
          (case broadcast_loop conns m sender w [] of
             (w', disconnected) \<Rightarrow> cleanup_loop disconnected rid w'))"

fun broadcast_to_all_loop ::
  "websocket list \<Rightarrow> json \<Rightarrow> world \<Rightarrow> websocket list \<Rightarrow> world \<times> websocket list"
where
  "broadcast_to_all_loop [] m w disconnected = (w, disconnected)"
| "broadcast_to_all_loop (connection # rest) m w disconnected =
     (case send_json w connection m of
        Inr w' \<Rightarrow> broadcast_to_all_loop rest m w' disconnected
      | Inl e \<Rightarrow> broadcast_to_all_loop rest m w (disconnected @ [connection]))"

definition broadcast_to_all :: "world \<Rightarrow> room_id \<Rightarrow> json \<Rightarrow> world" where
  "broadcast_to_all w rid m =
     (case active_connections w rid of
        None \<Rightarrow> w
      | Some conns \<Rightarrow>
          (case broadcast_to_all_loop conns m w [] of
             (w', disconnected) \<Rightarrow> cleanup_loop disconnected rid w'))"

definition get_room_user_count :: "world \<Rightarrow> room_id \<Rightarrow> nat" where
  "get_room_user_count w rid =
     length (case active_connections w rid of None \<Rightarrow> [] | Some conns \<Rightarrow> conns)"

section \<open>websockets.py: the endpoint\<close>

text \<open>The dictionaries that the endpoint sends, with the keys in the order of the source.\<close>

definition init_envelope :: "room \<Rightarrow> room_id \<Rightarrow> json" where
  "init_envelope rm rid =
     JObj [(''type'', JStr ''init''), (''code'', code rm), (''roomId'', JStr rid),
           (''language'', JStr (language rm))]"

definition user_count_envelope :: "nat \<Rightarrow> json" where
  "user_count_envelope n = JObj [(''type'', JStr ''user_count''), (''count'', JInt (int n))]"

definition code_update_envelope :: "json \<Rightarrow> json \<Rightarrow> json" where
  "code_update_envelope c cursor_position =
     JObj [(''type'', JStr ''code_update''), (''code'', c), (''cursorPosition'', cursor_position)]"

definition cursor_move_envelope :: "json \<Rightarrow> json" where
  "cursor_move_envelope cursor_position =
     JObj [(''type'', JStr ''cursor_move''), (''cursorPosition'', cursor_position)]"

definition code_output_envelope :: "json \<Rightarrow> json \<Rightarrow> json \<Rightarrow> json" where
  "code_output_envelope output err execution_status =
     JObj [(''type'', JStr ''code_output''), (''output'', output), (''error'', err),
           (''status'', execution_status)]"

text \<open>\<^verbatim>\<open>message.get(key, default)\<close> on a dict.\<close>

definition dict_get :: "(string \<times> json) list \<Rightarrow> string \<Rightarrow> json \<Rightarrow> json" where
  "dict_get kv k d = (case map_of kv k of None \<Rightarrow> d | Some v \<Rightarrow> v)"

text \<open>Python's \<^verbatim>\<open>len\<close>, which the f-string of the debug log line applies to \<^verbatim>\<open>code\<close>.\<close>

fun py_len :: "json \<Rightarrow> exn + nat" where
  "py_len (JStr s) = Inr (length s)"
| "py_len (JArr xs) = Inr (length xs)"
| "py_len (JObj kv) = Inr (length kv)"
| "py_len v = Inl TypeError"

text \<open>
  What one \<^verbatim>\<open>await websocket.receive_text()\<close> followed by \<^verbatim>\<open>json.loads(data)\<close> yields:
  the receive raises (a client disconnect is \<open>WebSocketDisconnect\<close>), or the text is not
  JSON, or it is the JSON value given.
\<close>

datatype frame =
    Receive_raises exn
  | Text_malformed
  | Text_json json

text \<open>
  How a piece of the \<^verbatim>\<open>try\<close> block ends: control goes on (\<open>Continue\<close>), the function
  returns (\<open>Return\<close>), or an exception leaves the block (\<open>Raise\<close>); each with the state
  reached.
\<close>

datatype step =
    Continue world
  | Return world
  | Raise exn world

text \<open>Lines 161 to 184: room lookup, admission, the init snapshot and the user count.\<close>

definition admit :: "world \<Rightarrow> websocket \<Rightarrow> room_id \<Rightarrow> step" where
  "admit w ws rid =
     (case get_room (store w) rid of
        Inl e \<Rightarrow> Raise e w
      | Inr None \<Rightarrow> Return (w\<lparr>closed := (closed w)(ws \<mapsto> (4004, ''Room not found''))\<rparr>)
      | Inr (Some rm) \<Rightarrow>
          (let w1 = connect w ws rid in
           case send_json w1 ws (init_envelope rm rid) of
             Inl e \<Rightarrow> Raise e w1
           | Inr w2 \<Rightarrow>
               (let user_count = get_room_user_count w2 rid
                in Continue (broadcast_to_all w2 rid (user_count_envelope user_count)))))"

text \<open>Lines 188 to 234: one iteration of the message handling loop.\<close>

definition loop_body :: "world \<Rightarrow> websocket \<Rightarrow> room_id \<Rightarrow> frame \<Rightarrow> step" where
  "loop_body w ws rid fr =
     (case fr of
        Receive_raises e \<Rightarrow> Raise e w
      | Text_malformed \<Rightarrow> Raise JSONDecodeError w
      | Text_json message \<Rightarrow>
          (case message of
             JObj kv \<Rightarrow>
               (let message_type = dict_get kv ''type'' JNull in
                if message_type = JStr ''code_update'' then
                  (let c = dict_get kv ''code'' (JStr '''');
                       cursor_position = dict_get kv ''cursorPosition'' (JInt 0)
                   in case update_room_code (store w) rid c of
                        Inl e \<Rightarrow> Raise e w
                      | Inr (_, db') \<Rightarrow>
                          (let w1 = broadcast (w\<lparr>store := db'\<rparr>) rid
                                      (code_update_envelope c cursor_position) (Some ws)
                           in case py_len c of
                                Inl e \<Rightarrow> Raise e w1
                              | Inr _ \<Rightarrow> Continue w1))
                else if message_type = JStr ''cursor_move'' then
                  (let cursor_position = dict_get kv ''cursorPosition'' (JInt 0)
                   in Continue (broadcast w rid (cursor_move_envelope cursor_position) (Some ws)))
                else if message_type = JStr ''code_output'' then
                  (let output = dict_get kv ''output'' JNull;
                       err = dict_get kv ''error'' JNull;
                       execution_status = dict_get kv ''status'' (JStr ''running'')
                   in Continue (broadcast_to_all w rid
                                  (code_output_envelope output err execution_status)))
                else Continue w)
           | _ \<Rightarrow> Raise AttributeError w))"

text \<open>
  \<^verbatim>\<open>while True\<close>: the loop consumes the frames the client sends, one per iteration. When
  the frames given are used up the handler is suspended in \<^verbatim>\<open>receive_text\<close>
  (\<open>Continue\<close>); it leaves the loop only by an exception.
\<close>

fun message_loop :: "world \<Rightarrow> websocket \<Rightarrow> room_id \<Rightarrow> frame list \<Rightarrow> step" where
  "message_loop w ws rid [] = Continue w"
| "message_loop w ws rid (fr # frs) =
     (case loop_body w ws rid fr of
        Continue w' \<Rightarrow> message_loop w' ws rid frs
      | Return w' \<Rightarrow> Return w'
      | Raise e w' \<Rightarrow> Raise e w')"

text \<open>The two \<^verbatim>\<open>except\<close> clauses, lines 236 to 250.\<close>

definition except :: "exn \<Rightarrow> world \<Rightarrow> websocket \<Rightarrow> room_id \<Rightarrow> world" where
  "except e w ws rid =
     (if e = WebSocketDisconnect then
        (let w1 = disconnect w ws rid;
             user_count = get_room_user_count w1 rid
         in broadcast_to_all w1 rid (user_count_envelope user_count))
      else disconnect w ws rid)"

text \<open>
  The whole handler on the frames a client sends: still in the loop (\<open>Streaming\<close>) or
  returned (\<open>Finished\<close>). \<^verbatim>\<open>db.close()\<close> in the \<^verbatim>\<open>finally\<close> clause changes nothing
  that is modelled.
\<close>

datatype handler = Streaming world | Finished world

definition try_block :: "world \<Rightarrow> websocket \<Rightarrow> room_id \<Rightarrow> frame list \<Rightarrow> step" where
  "try_block w ws rid frames =
     (case admit w ws rid of
        Continue w1 \<Rightarrow> message_loop w1 ws rid frames
      | Return w' \<Rightarrow> Return w'
      | Raise e w' \<Rightarrow> Raise e w')"

definition websocket_endpoint :: "world \<Rightarrow> websocket \<Rightarrow> room_id \<Rightarrow> frame list \<Rightarrow> handler" where
  "websocket_endpoint w ws rid frames =
     (case try_block w ws rid frames of
        Continue w' \<Rightarrow> Streaming w'
      | Return w' \<Rightarrow> Finished w'
      | Raise e w' \<Rightarrow> Finished (except e w' ws rid))"

text \<open>The state a handler has reached, and the members of a room.\<close>

fun world_of :: "handler \<Rightarrow> world" where
  "world_of (Streaming w) = w"
| "world_of (Finished w) = w"

definition members :: "world \<Rightarrow> room_id \<Rightarrow> websocket list" where
  "members w rid = (case active_connections w rid of None \<Rightarrow> [] | Some conns \<Rightarrow> conns)"

definition broken :: "world \<Rightarrow> websocket \<Rightarrow> bool" where
  "broken w c = (fault w c \<noteq> None)"

definition is_streaming :: "handler \<Rightarrow> bool" where
  "is_streaming h = (case h of Streaming w \<Rightarrow> True | Finished w \<Rightarrow> False)"


text \<open>
  A handler that is already in its message loop in state \<open>w\<close> and receives the frames
  given: the rest of \<^verbatim>\<open>websocket_endpoint\<close> from line 187 on.
\<close>

definition streaming :: "world \<Rightarrow> websocket \<Rightarrow> room_id \<Rightarrow> frame list \<Rightarrow> handler" where
  "streaming w ws rid frames =
     (case message_loop w ws rid frames of
        Continue w' \<Rightarrow> Streaming w'
      | Return w' \<Rightarrow> Finished w'
      | Raise e w' \<Rightarrow> Finished (except e w' ws rid))"

text \<open>
  The registry is only ever changed through the four methods of the manager. A history of
  the manager is a list of such calls, interleaved with changes of the environment (a
  channel starts or stops failing).
\<close>

datatype manager_call =
    Connect websocket room_id
  | Disconnect websocket room_id
  | Broadcast room_id json "websocket option"
  | Broadcast_to_all room_id json
  | Channel_fault websocket "exn option"

fun call :: "world \<Rightarrow> manager_call \<Rightarrow> world" where
  "call w (Connect ws rid) = connect w ws rid"
| "call w (Disconnect ws rid) = disconnect w ws rid"
| "call w (Broadcast rid m sender) = broadcast w rid m sender"
| "call w (Broadcast_to_all rid m) = broadcast_to_all w rid m"
| "call w (Channel_fault ws e) = w\<lparr>fault := (fault w)(ws := e)\<rparr>"

definition history :: "world \<Rightarrow> manager_call list \<Rightarrow> world" where
  "history w cs = foldl call w cs"

subsection \<open>Example states\<close>

text \<open>
  A fresh server whose store holds the room \<^verbatim>\<open>abc12345\<close> with code \<^verbatim>\<open>x=1\n\<close>, and the
  same server with the channels 1 and 2 admitted to that room.
\<close>

definition fresh_server :: world where
  "fresh_server =
     \<lparr>active_connections = Map.empty,
      store = \<lparr>rooms = [''abc12345'' \<mapsto> \<lparr>code = JStr (''x=1'' @ [CHR 0x0A]), language = ''python''\<rparr>],
               down = False\<rparr>,
      sent = (\<lambda>c. []),
      fault = (\<lambda>c. None),
      accepted = (\<lambda>c. False),
      closed = Map.empty\<rparr>"

definition two_members :: world where
  "two_members =
     fresh_server\<lparr>active_connections := [''abc12345'' \<mapsto> [1, 2]],
                  accepted := (\<lambda>c. c = 1 \<or> c = 2)\<rparr>"

definition three_members :: world where
  "three_members =
     fresh_server\<lparr>active_connections := [''abc12345'' \<mapsto> [1, 2, 3]],
                  accepted := (\<lambda>c. c = 1 \<or> c = 2 \<or> c = 3),
                  fault := (\<lambda>c. if c = 3 then Some RuntimeError else None)\<rparr>"

definition store_down :: world where
  "store_down = two_members\<lparr>store := (store two_members)\<lparr>down := True\<rparr>\<rparr>"

text \<open>The state after channel 1 and then channel 2 have joined the room through the endpoint.\<close>

definition both_joined :: world where
  "both_joined =
     world_of (websocket_endpoint
       (world_of (websocket_endpoint fresh_server 1 ''abc12345'' [])) 2 ''abc12345'' [])"

text \<open>
  The same room after its row has gone from the store, and the messages used in the
  examples.
\<close>

definition room_deleted :: world where
  "room_deleted = two_members\<lparr>store := (store two_members)\<lparr>rooms := Map.empty\<rparr>\<rparr>"

definition code_update_y2 :: "(string \<times> json) list" where
  "code_update_y2 =
     [(''type'', JStr ''code_update''), (''code'', JStr ''y=2''), (''cursorPosition'', JInt 3)]"


definition unknown_message :: "(string \<times> json) list" where
  "unknown_message = [(''type'', JStr ''ping''), (''code'', JStr ''z'')]"

section \<open>Properties of the manager\<close>

lemma disconnect_fields [simp]:
  "store (disconnect w c r) = store w"
  "sent (disconnect w c r) = sent w"
  "fault (disconnect w c r) = fault w"
  "accepted (disconnect w c r) = accepted w"
  "closed (disconnect w c r) = closed w"
  by (simp_all add: disconnect_def Let_def split: option.split)

lemma members_disconnect:
  "members (disconnect w c r) r' = (if r' = r then remove1 c (members w r) else members w r')"
  by (auto simp: members_def disconnect_def Let_def remove1_idem split: option.split)

lemma broken_disconnect [simp]: "broken (disconnect w c r) = broken w"
  by (simp add: broken_def fun_eq_iff)

lemma cleanup_loop_fields [simp]:
  "store (cleanup_loop ds r w) = store w"
  "sent (cleanup_loop ds r w) = sent w"
  "fault (cleanup_loop ds r w) = fault w"
  "accepted (cleanup_loop ds r w) = accepted w"
  "closed (cleanup_loop ds r w) = closed w"
  by (induction ds arbitrary: w; simp)+

lemma members_cleanup_loop:
  "members (cleanup_loop ds r w) r' =
     (if r' = r then fold remove1 ds (members w r) else members w r')"
  by (induction ds arbitrary: w) (simp_all add: members_disconnect)

text \<open>
  Removing, one first occurrence at a time, every occurrence of the elements that satisfy
  \<open>P\<close> leaves the others in their order.
\<close>

lemma fold_remove1_filter:
  "\<forall>x \<in> set pre. \<not> P x \<Longrightarrow>
   fold remove1 (filter P xs) (pre @ xs) = pre @ filter (\<lambda>x. \<not> P x) xs"
proof (induction xs arbitrary: pre)
  case Nil
  then show ?case by simp
next
  case (Cons x xs)
  show ?case
  proof (cases "P x")
    case True
    with Cons.prems have "x \<notin> set pre" by auto
    then have "remove1 x (pre @ x # xs) = pre @ xs"
      by (simp add: remove1_append)
    with True Cons.IH [OF Cons.prems] show ?thesis by simp
  next
    case False
    with Cons.prems have "\<forall>y \<in> set (pre @ [x]). \<not> P y" by auto
    from Cons.IH [OF this] False show ?thesis by simp
  qed
qed

lemma broadcast_loop_fields [simp]:
  "active_connections (fst (broadcast_loop conns m s w d)) = active_connections w"
  "store (fst (broadcast_loop conns m s w d)) = store w"
  "fault (fst (broadcast_loop conns m s w d)) = fault w"
  "accepted (fst (broadcast_loop conns m s w d)) = accepted w"
  "closed (fst (broadcast_loop conns m s w d)) = closed w"
  by (induction conns arbitrary: w d; simp add: send_json_def split: option.split)+

lemma snd_broadcast_loop:
  "snd (broadcast_loop conns m s w d) = d @ filter (\<lambda>c. broken w c \<and> Some c \<noteq> s) conns"
  by (induction conns arbitrary: w d) (auto simp: send_json_def broken_def split: option.split)

lemma sent_broadcast_loop:
  "sent (fst (broadcast_loop conns m s w d)) c =
     sent w c @ (if broken w c \<or> Some c = s then [] else replicate (count_list conns c) m)"
  by (induction conns arbitrary: w d)
     (auto simp: send_json_def broken_def replicate_append_same split: option.split)

lemma broadcast_to_all_loop_eq:
  "broadcast_to_all_loop conns m w d = broadcast_loop conns m None w d"
  by (induction conns arbitrary: w d) (simp_all split: sum.split)

lemma broadcast_to_all_eq: "broadcast_to_all w r m = broadcast w r m None"
  by (simp add: broadcast_to_all_def broadcast_def broadcast_to_all_loop_eq split: option.split)

lemma broadcast_unfold:
  "broadcast w r m s =
     (if active_connections w r = None then w
      else cleanup_loop (snd (broadcast_loop (members w r) m s w [])) r
             (fst (broadcast_loop (members w r) m s w [])))"
  by (simp add: broadcast_def members_def split: option.split prod.split)

lemma broadcast_fields [simp]:
  "store (broadcast w r m s) = store w"
  "fault (broadcast w r m s) = fault w"
  "accepted (broadcast w r m s) = accepted w"
  "closed (broadcast w r m s) = closed w"
  by (simp_all add: broadcast_unfold)

lemma broken_broadcast [simp]: "broken (broadcast w r m s) = broken w"
  by (simp add: broken_def fun_eq_iff)

lemma sent_broadcast:
  "sent (broadcast w r m s) c =
     sent w c @ (if broken w c \<or> Some c = s then []
                 else replicate (count_list (members w r) c) m)"
  by (simp add: broadcast_unfold sent_broadcast_loop members_def)

lemma members_fst_broadcast_loop [simp]:
  "members (fst (broadcast_loop conns m s w d)) r = members w r"
  by (simp add: members_def)

lemma members_broadcast:
  "members (broadcast w r m s) r' =
     (if r' = r then filter (\<lambda>c. \<not> (broken w c \<and> Some c \<noteq> s)) (members w r)
      else members w r')"
proof (cases "active_connections w r")
  case None
  then show ?thesis by (simp add: broadcast_unfold members_def)
next
  case (Some conns)
  with fold_remove1_filter [of "[]" "\<lambda>c. broken w c \<and> Some c \<noteq> s" "members w r"]
  show ?thesis
    by (simp add: broadcast_unfold members_cleanup_loop snd_broadcast_loop)
qed

lemma count_list_pos: "(0 < count_list xs c) = (c \<in> set xs)"
  by (induction xs) auto

lemma members_two_members: "members two_members ''abc12345'' = [1, 2]"
  by (simp add: members_def two_members_def fresh_server_def)

lemma members_three_members: "members three_members ''abc12345'' = [1, 2, 3]"
  by (simp add: members_def three_members_def fresh_server_def)

section \<open>The two broadcasts\<close>

text \<open>
  Claim C1. In a room \<open>R\<close> with at least one admitted channel, \<open>broadcast\<close> appends \<open>m\<close>
  to the messages delivered on every admitted channel other than the sender whose send
  does not raise, once for each time the channel is listed, and leaves the messages of
  the sender as they were; every channel other than the sender that is admitted when the
  call returns has received \<open>m\<close>. \<open>broadcast_to_all\<close> delivers \<open>m\<close> in the same way to
  every admitted channel, the sender included: every channel admitted when it returns has
  received \<open>m\<close>.
\<close>

theorem broadcast_delivery:
  assumes "members w R \<noteq> []"
  shows "(\<forall>c \<in> set (members w R). Some c \<noteq> sender \<and> \<not> broken w c \<longrightarrow>
            sent (broadcast w R m sender) c
              = sent w c @ replicate (count_list (members w R) c) m)
       \<and> (\<forall>s. sender = Some s \<longrightarrow> sent (broadcast w R m sender) s = sent w s)
       \<and> (\<forall>c \<in> set (members (broadcast w R m sender) R). Some c \<noteq> sender \<longrightarrow>
            sent (broadcast w R m sender) c
              = sent w c @ replicate (count_list (members w R) c) m
            \<and> 0 < count_list (members w R) c)
       \<and> (\<forall>c \<in> set (members w R). \<not> broken w c \<longrightarrow>
            sent (broadcast_to_all w R m) c
              = sent w c @ replicate (count_list (members w R) c) m)
       \<and> (\<forall>c \<in> set (members (broadcast_to_all w R m) R).
            sent (broadcast_to_all w R m) c
              = sent w c @ replicate (count_list (members w R) c) m
            \<and> 0 < count_list (members w R) c)"
  by (auto simp: sent_broadcast members_broadcast broadcast_to_all_eq count_list_pos)

theorem broadcast_delivery_witness:
  "members two_members ''abc12345'' \<noteq> []
   \<and> sent (broadcast two_members ''abc12345'' (JStr ''m'') (Some 1)) 2 = [JStr ''m'']
   \<and> sent (broadcast two_members ''abc12345'' (JStr ''m'') (Some 1)) 1 = []
   \<and> sent (broadcast_to_all two_members ''abc12345'' (JStr ''m'')) 1 = [JStr ''m'']
   \<and> sent (broadcast_to_all two_members ''abc12345'' (JStr ''m'')) 2 = [JStr ''m'']"
proof -
  have ne: "members two_members ''abc12345'' \<noteq> []"
    by (simp add: members_two_members)
  have s: "sent two_members = (\<lambda>c. [])" and b: "broken two_members = (\<lambda>c. False)"
    by (simp_all add: two_members_def fresh_server_def broken_def fun_eq_iff)
  show ?thesis
    using ne broadcast_delivery [OF ne, of "Some 1" "JStr ''m''"]
    by (simp add: members_two_members s b)
qed

text \<open>
  Claim C3. If a channel \<open>c\<close> of room \<open>R\<close> raises when \<open>m\<close> is sent to it (in \<open>broadcast\<close>
  this needs \<open>c\<close> not to be the sender, to which nothing is sent), the broadcast still
  returns normally: \<open>c\<close> is no longer a member of \<open>R\<close> when it returns, \<open>c\<close> has not
  received \<open>m\<close>, and every other addressed channel whose send does not raise is still a
  member and has received \<open>m\<close>.
\<close>

theorem failing_channel_evicted:
  assumes "c \<in> set (members w R)" and "broken w c"
  shows "c \<notin> set (members (broadcast_to_all w R m) R)
       \<and> sent (broadcast_to_all w R m) c = sent w c
       \<and> (\<forall>d \<in> set (members w R). \<not> broken w d \<longrightarrow>
            d \<in> set (members (broadcast_to_all w R m) R)
            \<and> sent (broadcast_to_all w R m) d
                = sent w d @ replicate (count_list (members w R) d) m)
       \<and> (Some c \<noteq> sender \<longrightarrow>
            c \<notin> set (members (broadcast w R m sender) R)
            \<and> sent (broadcast w R m sender) c = sent w c
            \<and> (\<forall>d \<in> set (members w R). \<not> broken w d \<and> Some d \<noteq> sender \<longrightarrow>
                 d \<in> set (members (broadcast w R m sender) R)
                 \<and> sent (broadcast w R m sender) d
                     = sent w d @ replicate (count_list (members w R) d) m))"
  using assms by (auto simp: sent_broadcast members_broadcast broadcast_to_all_eq)

theorem failing_channel_evicted_witness:
  "3 \<in> set (members three_members ''abc12345'') \<and> broken three_members 3
   \<and> 3 \<notin> set (members (broadcast_to_all three_members ''abc12345'' (JStr ''m'')) ''abc12345'')
   \<and> sent (broadcast_to_all three_members ''abc12345'' (JStr ''m'')) 3 = []
   \<and> sent (broadcast_to_all three_members ''abc12345'' (JStr ''m'')) 2 = [JStr ''m'']
   \<and> 3 \<notin> set (members (broadcast three_members ''abc12345'' (JStr ''m'') (Some 1)) ''abc12345'')
   \<and> sent (broadcast three_members ''abc12345'' (JStr ''m'') (Some 1)) 2 = [JStr ''m'']"
proof -
  have a: "3 \<in> set (members three_members ''abc12345'')"
    by (simp add: members_three_members)
  have s: "sent three_members = (\<lambda>c. [])" and f: "broken three_members = (\<lambda>c. c = 3)"
    by (simp_all add: three_members_def fresh_server_def broken_def fun_eq_iff)
  have b: "broken three_members 3"
    by (simp add: f)
  show ?thesis
    using a b failing_channel_evicted [OF a b, of "JStr ''m''" "Some 1"]
    by (simp add: members_three_members s f)
qed

section \<open>The registry\<close>

lemma active_connections_connect:
  "active_connections (connect w ws r) r' =
     (if r' = r then Some (members w r @ [ws]) else active_connections w r')"
  by (simp add: connect_def members_def Let_def split: option.split)

lemma members_connect:
  "members (connect w ws r) r' = (if r' = r then members w r @ [ws] else members w r')"
  by (simp add: members_def active_connections_connect)

lemma connect_fields [simp]:
  "store (connect w ws r) = store w"
  "sent (connect w ws r) = sent w"
  "fault (connect w ws r) = fault w"
  "closed (connect w ws r) = closed w"
  by (simp_all add: connect_def Let_def)

lemma broken_connect [simp]: "broken (connect w ws r) = broken w"
  by (simp add: broken_def fun_eq_iff)

lemma no_empty_disconnect:
  "\<forall>r. active_connections w r \<noteq> Some [] \<Longrightarrow>
   active_connections (disconnect w c r) r' \<noteq> Some []"
  by (auto simp: disconnect_def Let_def split: option.split)

lemma no_empty_cleanup_loop:
  "\<forall>r. active_connections w r \<noteq> Some [] \<Longrightarrow>
   active_connections (cleanup_loop ds r w) r' \<noteq> Some []"
  by (induction ds arbitrary: w r') (simp_all add: no_empty_disconnect)

lemma no_empty_broadcast:
  "\<forall>r. active_connections w r \<noteq> Some [] \<Longrightarrow>
   active_connections (broadcast w r m s) r' \<noteq> Some []"
  by (simp add: broadcast_unfold no_empty_cleanup_loop)

lemma no_empty_call:
  "\<forall>r. active_connections w r \<noteq> Some [] \<Longrightarrow> active_connections (call w a) r' \<noteq> Some []"
  by (cases a)
     (simp_all add: active_connections_connect no_empty_disconnect no_empty_broadcast
        broadcast_to_all_eq)

lemma no_empty_history:
  "\<forall>r. active_connections w r \<noteq> Some [] \<Longrightarrow>
   active_connections (history w cs) r' \<noteq> Some []"
  unfolding history_def
  by (induction cs arbitrary: w r') (simp_all add: no_empty_call)

lemma get_room_user_count_members: "get_room_user_count w r = length (members w r)"
  by (simp add: get_room_user_count_def members_def)

text \<open>
  Claim C2. Starting from the empty dictionary of \<^verbatim>\<open>__init__\<close>, after any history of
  manager calls a room has an entry exactly when it has at least one connection; the
  count of a room is the length of its list, and 0 when there is no entry; and removing
  the only connection of a room deletes its entry in that same call.
\<close>

theorem registry_entry_iff_members:
  assumes "active_connections w = Map.empty"
  shows "(\<forall>r. (active_connections (history w cs) r \<noteq> None)
               = (0 < get_room_user_count (history w cs) r))
       \<and> (\<forall>r. get_room_user_count (history w cs) r
               = (case active_connections (history w cs) r of
                    None \<Rightarrow> 0 | Some conns \<Rightarrow> length conns))
       \<and> (\<forall>r ws. active_connections (history w cs) r = Some [ws] \<longrightarrow>
               active_connections (disconnect (history w cs) ws r) r = None)"
proof -
  from assms have "\<forall>r. active_connections w r \<noteq> Some []"
    by simp
  then have inv: "active_connections (history w cs) r \<noteq> Some []" for r
    by (rule no_empty_history)
  have "(active_connections (history w cs) r \<noteq> None)
          = (0 < get_room_user_count (history w cs) r)" for r
    using inv [of r] by (auto simp: get_room_user_count_def split: option.split)
  moreover have "get_room_user_count (history w cs) r
          = (case active_connections (history w cs) r of
               None \<Rightarrow> 0 | Some conns \<Rightarrow> length conns)" for r
    by (simp add: get_room_user_count_def split: option.split)
  moreover have "active_connections (history w cs) r = Some [ws] \<Longrightarrow>
          active_connections (disconnect (history w cs) ws r) r = None" for r ws
    by (simp add: disconnect_def)
  ultimately show ?thesis by blast
qed

theorem registry_entry_iff_members_witness:
  "active_connections fresh_server = Map.empty
   \<and> get_room_user_count
        (history fresh_server [Connect 1 ''abc12345'', Connect 2 ''abc12345'',
                               Disconnect 1 ''abc12345'']) ''abc12345'' = 1
   \<and> active_connections
        (history fresh_server [Connect 1 ''abc12345'', Connect 2 ''abc12345'',
                               Disconnect 1 ''abc12345'']) ''abc12345'' \<noteq> None
   \<and> get_room_user_count
        (history fresh_server [Connect 1 ''abc12345'', Disconnect 1 ''abc12345'']) ''abc12345'' = 0
   \<and> active_connections
        (history fresh_server [Connect 1 ''abc12345'', Disconnect 1 ''abc12345'']) ''abc12345'' = None"
proof -
  have e: "active_connections fresh_server = Map.empty"
    by (simp add: fresh_server_def)
  have m: "members fresh_server ''abc12345'' = []"
    by (simp add: members_def e)
  have c1: "get_room_user_count
        (history fresh_server [Connect 1 ''abc12345'', Connect 2 ''abc12345'',
                               Disconnect 1 ''abc12345'']) ''abc12345'' = 1"
    by (simp add: history_def get_room_user_count_members members_disconnect members_connect m)
  have c0: "get_room_user_count
        (history fresh_server [Connect 1 ''abc12345'', Disconnect 1 ''abc12345'']) ''abc12345'' = 0"
    by (simp add: history_def get_room_user_count_members members_disconnect members_connect m)
  have n1: "active_connections
        (history fresh_server [Connect 1 ''abc12345'', Connect 2 ''abc12345'',
                               Disconnect 1 ''abc12345'']) ''abc12345'' \<noteq> None"
    using registry_entry_iff_members [OF e, of "[Connect 1 ''abc12345'', Connect 2 ''abc12345'',
                               Disconnect 1 ''abc12345'']", THEN conjunct1, rule_format, of "''abc12345''"]
    unfolding c1 by simp
  have n0: "active_connections
        (history fresh_server [Connect 1 ''abc12345'', Disconnect 1 ''abc12345'']) ''abc12345'' = None"
    using registry_entry_iff_members [OF e, of "[Connect 1 ''abc12345'', Disconnect 1 ''abc12345'']",
        THEN conjunct1, rule_format, of "''abc12345''"]
    unfolding c0 by simp
  from e c1 n1 c0 n0 show ?thesis
    by (intro conjI)
qed

section \<open>Properties of the endpoint\<close>

lemma websocket_endpoint_streaming:
  "admit w ws rid = Continue w1 \<Longrightarrow>
   websocket_endpoint w ws rid frames = streaming w1 ws rid frames"
  by (simp add: websocket_endpoint_def try_block_def streaming_def)

lemma streaming_Cons:
  "streaming w ws rid (fr # frs) =
     (case loop_body w ws rid fr of
        Continue w' \<Rightarrow> streaming w' ws rid frs
      | Return w' \<Rightarrow> Finished w'
      | Raise e w' \<Rightarrow> Finished (except e w' ws rid))"
  by (simp add: streaming_def split: step.split)

lemma loop_body_code_update:
  "dict_get kv ''type'' JNull = JStr ''code_update'' \<Longrightarrow>
   loop_body w ws rid (Text_json (JObj kv)) =
     (case update_room_code (store w) rid (dict_get kv ''code'' (JStr '''')) of
        Inl e \<Rightarrow> Raise e w
      | Inr (b, db') \<Rightarrow>
          (case py_len (dict_get kv ''code'' (JStr '''')) of
             Inl e \<Rightarrow> Raise e (broadcast (w\<lparr>store := db'\<rparr>) rid
                 (code_update_envelope (dict_get kv ''code'' (JStr ''''))
                    (dict_get kv ''cursorPosition'' (JInt 0))) (Some ws))
           | Inr n \<Rightarrow> Continue (broadcast (w\<lparr>store := db'\<rparr>) rid
                 (code_update_envelope (dict_get kv ''code'' (JStr ''''))
                    (dict_get kv ''cursorPosition'' (JInt 0))) (Some ws))))"
  by (simp add: loop_body_def Let_def split: sum.split prod.split)



lemma members_store_update [simp]: "members (w\<lparr>store := db\<rparr>) = members w"
  by (simp add: members_def fun_eq_iff)

lemma broken_store_update [simp]: "broken (w\<lparr>store := db\<rparr>) = broken w"
  by (simp add: broken_def fun_eq_iff)

lemma members_sent_update [simp]: "members (w\<lparr>sent := f\<rparr>) = members w"
  by (simp add: members_def fun_eq_iff)

lemma broken_sent_update [simp]: "broken (w\<lparr>sent := f\<rparr>) = broken w"
  by (simp add: broken_def fun_eq_iff)

lemma admit_found:
  assumes "get_room (store w) rid = Inr (Some rm)" and "\<not> broken w ws"
  shows "admit w ws rid =
     Continue (broadcast
        ((connect w ws rid)\<lparr>sent := (sent w)(ws := sent w ws @ [init_envelope rm rid])\<rparr>) rid
        (user_count_envelope (Suc (length (members w rid)))) None)"
  using assms
  by (simp add: admit_def send_json_def broken_def Let_def broadcast_to_all_eq
      get_room_user_count_members members_connect)

section \<open>Admission\<close>

text \<open>
  Claim C4, amended. When the store lookup finds no room, the handler returns at once:
  the channel is closed with code 4004 and the reason \<^verbatim>\<open>Room not found\<close> (capital R, as
  the source spells it), it is not accepted, nothing is sent, and the registry and the
  store are unchanged.
\<close>

theorem missing_room_rejected:
  assumes "get_room (store w) rid = Inr None"
  shows "websocket_endpoint w ws rid frames
           = Finished (w\<lparr>closed := (closed w)(ws \<mapsto> (4004, ''Room not found''))\<rparr>)
       \<and> closed (world_of (websocket_endpoint w ws rid frames)) ws = Some (4004, ''Room not found'')
       \<and> active_connections (world_of (websocket_endpoint w ws rid frames)) = active_connections w
       \<and> accepted (world_of (websocket_endpoint w ws rid frames)) = accepted w
       \<and> sent (world_of (websocket_endpoint w ws rid frames)) = sent w
       \<and> store (world_of (websocket_endpoint w ws rid frames)) = store w"
  using assms by (simp add: websocket_endpoint_def try_block_def admit_def)

theorem missing_room_rejected_witness:
  "get_room (store fresh_server) ''nosuch00'' = Inr None
   \<and> \<not> is_streaming (websocket_endpoint fresh_server 1 ''nosuch00'' [])
   \<and> closed (world_of (websocket_endpoint fresh_server 1 ''nosuch00'' [])) 1
       = Some (4004, ''Room not found'')
   \<and> active_connections (world_of (websocket_endpoint fresh_server 1 ''nosuch00'' [])) ''nosuch00''
       = None"
proof -
  have g: "get_room (store fresh_server) ''nosuch00'' = Inr None"
    by (simp add: get_room_def fresh_server_def)
  have a: "active_connections fresh_server = Map.empty"
    by (simp add: fresh_server_def)
  from g a missing_room_rejected [OF g, of 1 "[]"] show ?thesis
    by (simp add: is_streaming_def)
qed

text \<open>
  The claim as written gives the reason as \<^verbatim>\<open>room not found\<close>; the close reason of the
  source differs from it in its first letter.
\<close>

theorem missing_room_reason_counterexample:
  "get_room (store fresh_server) ''nosuch00'' = Inr None
   \<and> closed (world_of (websocket_endpoint fresh_server 1 ''nosuch00'' [])) 1
       \<noteq> Some (4004, ''room not found'')"
  by (simp add: websocket_endpoint_def try_block_def admit_def get_room_def fresh_server_def)

text \<open>
  Claim C8. When the store has the room and sends on the joining channel do not raise,
  the handler enters its loop; the joining channel has received the init envelope with
  the code and language of the stored room and the room id, followed by the user count
  envelope; every other channel has received nothing but the user count envelope, once
  per listing in the room, if its send does not raise; the count that the envelope
  carries is the size of the room after the admission.
\<close>

theorem join_sends_init_then_user_count:
  assumes "get_room (store w) rid = Inr (Some rm)" and "\<not> broken w ws"
  shows "let h = websocket_endpoint w ws rid [];
             n = Suc (length (members w rid));
             init = JObj [(''type'', JStr ''init''), (''code'', code rm), (''roomId'', JStr rid),
                          (''language'', JStr (language rm))];
             user_count = JObj [(''type'', JStr ''user_count''), (''count'', JInt (int n))]
         in is_streaming h
          \<and> get_room_user_count (connect w ws rid) rid = n
          \<and> sent (world_of h) ws
              = sent w ws @ init # replicate (Suc (count_list (members w rid) ws)) user_count
          \<and> (\<forall>c. c \<noteq> ws \<longrightarrow>
                sent (world_of h) c
                  = sent w c @ (if broken w c then []
                                else replicate (count_list (members w rid) c) user_count))
          \<and> user_count \<noteq> init
          \<and> members (world_of h) rid = filter (\<lambda>c. \<not> broken w c) (members w rid) @ [ws]"
proof -
  have h: "websocket_endpoint w ws rid [] =
     Streaming (broadcast
        ((connect w ws rid)\<lparr>sent := (sent w)(ws := sent w ws @ [init_envelope rm rid])\<rparr>) rid
        (user_count_envelope (Suc (length (members w rid)))) None)"
    by (simp add: websocket_endpoint_def try_block_def admit_found [OF assms])
  have i: "init_envelope rm rid
      = JObj [(''type'', JStr ''init''), (''code'', code rm), (''roomId'', JStr rid),
              (''language'', JStr (language rm))]"
    by (simp add: init_envelope_def)
  have u: "user_count_envelope n = JObj [(''type'', JStr ''user_count''), (''count'', JInt (int n))]"
    for n
    by (simp add: user_count_envelope_def)
  from assms(2) show ?thesis
    unfolding Let_def h i u
    by (simp add: is_streaming_def get_room_user_count_members
        members_connect sent_broadcast members_broadcast)
qed

theorem join_sends_init_then_user_count_witness:
  "get_room (store two_members) ''abc12345''
      = Inr (Some \<lparr>code = JStr (''x=1'' @ [CHR 0x0A]), language = ''python''\<rparr>)
   \<and> \<not> broken two_members 3
   \<and> is_streaming (websocket_endpoint two_members 3 ''abc12345'' [])
   \<and> get_room_user_count (connect two_members 3 ''abc12345'') ''abc12345'' = 3
   \<and> sent (world_of (websocket_endpoint two_members 3 ''abc12345'' [])) 3
       = [JObj [(''type'', JStr ''init''), (''code'', JStr (''x=1'' @ [CHR 0x0A])),
                (''roomId'', JStr ''abc12345''), (''language'', JStr ''python'')],
          JObj [(''type'', JStr ''user_count''), (''count'', JInt 3)]]
   \<and> sent (world_of (websocket_endpoint two_members 3 ''abc12345'' [])) 1
       = [JObj [(''type'', JStr ''user_count''), (''count'', JInt 3)]]
   \<and> sent (world_of (websocket_endpoint two_members 3 ''abc12345'' [])) 2
       = [JObj [(''type'', JStr ''user_count''), (''count'', JInt 3)]]
   \<and> sent (world_of (websocket_endpoint two_members 3 ''abc12345'' [])) 4 = []
   \<and> members (world_of (websocket_endpoint two_members 3 ''abc12345'' [])) ''abc12345''
       = [1, 2, 3]"
proof -
  have g: "get_room (store two_members) ''abc12345''
      = Inr (Some \<lparr>code = JStr (''x=1'' @ [CHR 0x0A]), language = ''python''\<rparr>)"
    by (simp add: get_room_def two_members_def fresh_server_def)
  have s: "sent two_members = (\<lambda>c. [])" and f: "broken two_members = (\<lambda>c. False)"
    by (simp_all add: two_members_def fresh_server_def broken_def fun_eq_iff)
  have b: "\<not> broken two_members 3"
    by (simp add: f)
  from g b join_sends_init_then_user_count [OF g b] show ?thesis
    by (simp add: Let_def members_two_members s f)
qed

section \<open>The message loop\<close>





text \<open>
  Claim C5, amended. A message that is a JSON object whose type is missing or is none of
  \<^verbatim>\<open>code_update\<close>, \<^verbatim>\<open>cursor_move\<close>, \<^verbatim>\<open>code_output\<close> leaves the state unchanged and the
  handler goes on with the next frame as if the message had not been sent. A text that
  is not JSON, or a JSON value that is not an object, raises inside the loop: the general
  \<^verbatim>\<open>except\<close> clause removes the channel from the registry and the handler returns.
\<close>

theorem unknown_type_ignored:
  assumes "dict_get kv ''type'' JNull
             \<notin> {JStr ''code_update'', JStr ''cursor_move'', JStr ''code_output''}"
  shows "loop_body w ws rid (Text_json (JObj kv)) = Continue w
       \<and> streaming w ws rid (Text_json (JObj kv) # frs) = streaming w ws rid frs
       \<and> streaming w ws rid (Text_malformed # frs) = Finished (disconnect w ws rid)
       \<and> ((\<forall>kv'. v \<noteq> JObj kv') \<longrightarrow>
            streaming w ws rid (Text_json v # frs) = Finished (disconnect w ws rid))"
proof -
  from assms have 1: "loop_body w ws rid (Text_json (JObj kv)) = Continue w"
    by (simp add: loop_body_def Let_def)
  have 2: "loop_body w ws rid Text_malformed = Raise JSONDecodeError w"
    by (simp add: loop_body_def)
  have 3: "loop_body w ws rid (Text_json v) = Raise AttributeError w" if "\<forall>kv'. v \<noteq> JObj kv'"
    using that by (cases v) (simp_all add: loop_body_def)
  from 1 2 3 show ?thesis
    by (simp add: streaming_Cons except_def)
qed

theorem unknown_type_ignored_witness:
  "dict_get unknown_message ''type'' JNull
      \<notin> {JStr ''code_update'', JStr ''cursor_move'', JStr ''code_output''}
   \<and> (\<forall>kv'. JArr [] \<noteq> JObj kv')
   \<and> loop_body two_members 1 ''abc12345'' (Text_json (JObj unknown_message)) = Continue two_members
   \<and> is_streaming (streaming two_members 1 ''abc12345'' [Text_json (JObj unknown_message)])
   \<and> \<not> is_streaming (streaming two_members 1 ''abc12345'' [Text_json (JArr [])])"
proof -
  have t: "dict_get unknown_message ''type'' JNull
      \<notin> {JStr ''code_update'', JStr ''cursor_move'', JStr ''code_output''}"
    by (simp add: dict_get_def unknown_message_def)
  have a: "\<forall>kv'. JArr [] \<noteq> JObj kv'"
    by simp
  have e: "streaming two_members 1 ''abc12345'' [] = Streaming two_members"
    by (simp add: streaming_def)
  from t a e unknown_type_ignored [OF t, of two_members 1 "''abc12345''" "[]" "JArr []"]
  show ?thesis
    by (simp add: is_streaming_def)
qed

text \<open>
  The claim as written also lets a malformed message be ignored. On a text that is not
  JSON the handler of channel 1 leaves the loop and channel 1 is removed from the room.
\<close>

theorem malformed_message_counterexample:
  "is_streaming (streaming two_members 1 ''abc12345'' [])
   \<and> \<not> is_streaming (streaming two_members 1 ''abc12345'' [Text_malformed])
   \<and> members two_members ''abc12345'' = [1, 2]
   \<and> members (world_of (streaming two_members 1 ''abc12345'' [Text_malformed])) ''abc12345'' = [2]"
  by (simp add: streaming_Cons loop_body_def except_def is_streaming_def members_disconnect
      members_two_members) (simp add: streaming_def)

section \<open>Exceptions in the loop\<close>

text \<open>
  Claim C6. Channels 1 and 2 have joined the room. An exception other than
  \<open>WebSocketDisconnect\<close> in the loop of channel 1 ends its handler and removes channel 1
  from the registry, but channel 2 receives nothing, whereas on a \<open>WebSocketDisconnect\<close>
  channel 2 receives the user count 1.
\<close>

theorem unexpected_exception_skips_user_count:
  "members both_joined ''abc12345'' = [1, 2]
   \<and> \<not> is_streaming (streaming both_joined 1 ''abc12345'' [Receive_raises RuntimeError])
   \<and> members (world_of (streaming both_joined 1 ''abc12345'' [Receive_raises RuntimeError]))
        ''abc12345'' = [2]
   \<and> sent (world_of (streaming both_joined 1 ''abc12345'' [Receive_raises RuntimeError])) 2
        = sent both_joined 2
   \<and> sent (world_of (streaming both_joined 1 ''abc12345'' [Receive_raises WebSocketDisconnect])) 2
        = sent both_joined 2 @ [JObj [(''type'', JStr ''user_count''), (''count'', JInt 1)]]"
  by code_simp

text \<open>
  Claim C7, amended. On a \<^verbatim>\<open>code_update\<close> message: if \<open>update_room_code\<close> returns
  \<open>False\<close> because the room is not in the store, the handler ignores the result,
  broadcasts the envelope to the other members and stays in the loop (for a code that is
  a string); if the store operation raises, the exception leaves the loop before any
  broadcast, the general \<^verbatim>\<open>except\<close> clause removes the channel from the registry, nothing
  is sent, and the handler returns.
\<close>

theorem store_failure_on_code_update:
  assumes "dict_get kv ''type'' JNull = JStr ''code_update''"
  shows "(\<not> down (store w) \<and> rooms (store w) rid = None
            \<and> (\<exists>s. dict_get kv ''code'' (JStr '''') = JStr s) \<longrightarrow>
           update_room_code (store w) rid (dict_get kv ''code'' (JStr '''')) = Inr (False, store w)
           \<and> loop_body w ws rid (Text_json (JObj kv))
               = Continue (broadcast w rid
                   (code_update_envelope (dict_get kv ''code'' (JStr ''''))
                      (dict_get kv ''cursorPosition'' (JInt 0))) (Some ws))
           \<and> streaming w ws rid (Text_json (JObj kv) # frs)
               = streaming (broadcast w rid
                   (code_update_envelope (dict_get kv ''code'' (JStr ''''))
                      (dict_get kv ''cursorPosition'' (JInt 0))) (Some ws)) ws rid frs)
       \<and> (down (store w) \<longrightarrow>
           update_room_code (store w) rid (dict_get kv ''code'' (JStr '''')) = Inl DatabaseError
           \<and> loop_body w ws rid (Text_json (JObj kv)) = Raise DatabaseError w
           \<and> streaming w ws rid (Text_json (JObj kv) # frs) = Finished (disconnect w ws rid)
           \<and> sent (disconnect w ws rid) = sent w
           \<and> members (disconnect w ws rid) rid = remove1 ws (members w rid))"
proof -
  have absent: "update_room_code (store w) rid c = Inr (False, store w)"
    if "\<not> down (store w)" "rooms (store w) rid = None" for c
    using that by (simp add: update_room_code_def get_room_def)
  have raises: "update_room_code (store w) rid c = Inl DatabaseError" if "down (store w)" for c
    using that by (simp add: update_room_code_def get_room_def)
  from assms show ?thesis
    by (auto simp: loop_body_code_update streaming_Cons absent raises except_def
        members_disconnect)
qed

theorem store_failure_on_code_update_witness:
  "dict_get code_update_y2 ''type'' JNull = JStr ''code_update''
   \<and> \<not> down (store room_deleted) \<and> rooms (store room_deleted) ''abc12345'' = None
   \<and> (\<exists>s. dict_get code_update_y2 ''code'' (JStr '''') = JStr s)
   \<and> loop_body room_deleted 1 ''abc12345'' (Text_json (JObj code_update_y2))
       = Continue (broadcast room_deleted ''abc12345'' (JObj code_update_y2) (Some 1))
   \<and> down (store store_down)
   \<and> streaming store_down 1 ''abc12345'' [Text_json (JObj code_update_y2)]
       = Finished (disconnect store_down 1 ''abc12345'')"
proof -
  have t: "dict_get code_update_y2 ''type'' JNull = JStr ''code_update''"
    by (simp add: dict_get_def code_update_y2_def)
  have c: "dict_get code_update_y2 ''code'' (JStr '''') = JStr ''y=2''"
    and p: "dict_get code_update_y2 ''cursorPosition'' (JInt 0) = JInt 3"
    by (simp_all add: dict_get_def code_update_y2_def)
  have e: "code_update_envelope (JStr ''y=2'') (JInt 3) = JObj code_update_y2"
    by (simp add: code_update_envelope_def code_update_y2_def)
  have d: "\<not> down (store room_deleted)" "rooms (store room_deleted) ''abc12345'' = None"
    by (simp_all add: room_deleted_def two_members_def fresh_server_def)
  have u: "down (store store_down)"
    by (simp add: store_down_def)
  from t d u c
    store_failure_on_code_update [OF t, of room_deleted "''abc12345''" 1 "[]"]
    store_failure_on_code_update [OF t, of store_down "''abc12345''" 1 "[]"]
  show ?thesis
    by (simp add: c p e)
qed

text \<open>
  The claim as written has the handler broadcast and stay in the loop when the store
  write fails. With the store raising, the handler of channel 1 returns and channel 2
  receives nothing.
\<close>

theorem store_failure_counterexample:
  "update_room_code (store store_down) ''abc12345'' (JStr ''y=2'') = Inl DatabaseError
   \<and> is_streaming (streaming store_down 1 ''abc12345'' [])
   \<and> \<not> is_streaming (streaming store_down 1 ''abc12345'' [Text_json (JObj code_update_y2)])
   \<and> sent (world_of (streaming store_down 1 ''abc12345'' [Text_json (JObj code_update_y2)])) 2
       = []"
proof -
  have u: "down (store store_down)"
    by (simp add: store_down_def)
  have s: "sent store_down = (\<lambda>c. [])"
    by (simp add: store_down_def two_members_def fresh_server_def)
  have t: "dict_get code_update_y2 ''type'' JNull = JStr ''code_update''"
    by (simp add: dict_get_def code_update_y2_def)
  have r: "update_room_code (store store_down) ''abc12345'' c = Inl DatabaseError" for c
    using u by (simp add: update_room_code_def get_room_def)
  have 1: "streaming store_down 1 ''abc12345'' [Text_json (JObj code_update_y2)]
      = Finished (disconnect store_down 1 ''abc12345'')"
    by (simp add: streaming_Cons loop_body_code_update [OF t] r except_def)
  have 0: "streaming store_down 1 ''abc12345'' [] = Streaming store_down"
    by (simp add: streaming_def)
  show ?thesis
    unfolding 0 1 by (simp add: r is_streaming_def s)
qed

end
